theory Spec2Isabelle
  imports Main
begin

section \<open>Data model (src/types/index.ts, src/models/schemas/colorSchema.ts)\<close>

text \<open>
  A size is \<^verbatim>\<open>number | string\<close>. The source compares sizes with \<^verbatim>\<open>===\<close>, which never
  identifies a number with a string, so the two shapes are the two constructors of a
  datatype and \<^verbatim>\<open>===\<close> is HOL equality. Numbers are modelled as \<^typ>\<open>int\<close>: stock counts,
  sizes and quantities are integers in the data model, and on integers the arithmetic and
  the comparisons of the source are those of \<^typ>\<open>int\<close>.
\<close>

datatype Size = NumSize int | StrSize string

record SizeVariant =
  size_sv :: Size
  stock :: int

text \<open>
  \<^verbatim>\<open>sizes: SizeVariant[]\<close> is a required array of the interface, and \<^verbatim>\<open>updateStock\<close> reads
  \<^verbatim>\<open>colorVariant.sizes\<close> without a test; the test \<^verbatim>\<open>variant.sizes &&\<close> of the queries
  therefore always passes and what is left of their guard is the length. \<^verbatim>\<open>images?: string[]\<close>
  is optional.
\<close>

record ColorVariant =
  color :: string
  sizes :: "SizeVariant list"
  images :: "string list option"

text \<open>
  Of \<^verbatim>\<open>IProduct\<close> only \<^verbatim>\<open>variants\<close> is read or written by the stock operations; every
  other field of the document lives in the extension of the record and is carried along
  unchanged. Each operation tests \<^verbatim>\<open>!this.variants\<close>, so an absent array is \<^term>\<open>None\<close>.
\<close>

record IProduct =
  variants :: "ColorVariant list option"

text \<open>What a rejected promise carries: an \<^verbatim>\<open>Error\<close> with its message, or any other value.\<close>

datatype Exn = Error string | NonError

subsection \<open>Numbers in template literals\<close>

text \<open>
  The decimal rendering that a template literal gives an integer. \<^term>\<open>digit_char\<close> is only
  applied to a digit, a number below 10.
\<close>

definition digit_char :: "nat \<Rightarrow> char" where
  "digit_char d = ''0123456789'' ! d"

function nat_toString :: "nat \<Rightarrow> string" where
  "nat_toString n = (if n < 10 then [digit_char n] else nat_toString (n div 10) @ [digit_char (n mod 10)])"
  by pat_completeness auto
termination
  by (relation "measure id") auto

declare nat_toString.simps [simp del]

definition number_toString :: "int \<Rightarrow> string" where
  "number_toString n = (if n < 0 then ''-'' @ nat_toString (nat (- n)) else nat_toString (nat n))"

fun size_toString :: "Size \<Rightarrow> string" where
  "size_toString (NumSize n) = number_toString n"
| "size_toString (StrSize s) = s"

text \<open>\<^verbatim>\<open>x || 0\<close> on a number: \<^verbatim>\<open>0\<close> is the only falsy integer.\<close>

definition or_zero :: "int \<Rightarrow> int" where
  "or_zero x = (if x \<noteq> 0 then x else 0)"

section \<open>Read-side queries (src/models/Product.ts)\<close>

subsection \<open>Virtual \<^verbatim>\<open>inStock\<close>\<close>

fun inStock_sizes :: "SizeVariant list \<Rightarrow> bool" where
  "inStock_sizes [] = False"
| "inStock_sizes (sizeVariant # rest) =
     (if stock sizeVariant > 0 then True else inStock_sizes rest)"

fun inStock_variants :: "ColorVariant list \<Rightarrow> bool" where
  "inStock_variants [] = False"
| "inStock_variants (variant # rest) =
     (if length (sizes variant) > 0 \<and> inStock_sizes (sizes variant) then True
      else inStock_variants rest)"

definition inStock :: "'a IProduct_scheme \<Rightarrow> bool" where
  "inStock this =
     (case variants this of
        None \<Rightarrow> False
      | Some vs \<Rightarrow> if length vs = 0 then False else inStock_variants vs)"

subsection \<open>Virtual \<^verbatim>\<open>totalStock\<close>\<close>

fun totalStock_sizes :: "SizeVariant list \<Rightarrow> int \<Rightarrow> int" where
  "totalStock_sizes [] tot = tot"
| "totalStock_sizes (sizeVariant # rest) tot =
     totalStock_sizes rest (tot + or_zero (stock sizeVariant))"

fun totalStock_variants :: "ColorVariant list \<Rightarrow> int \<Rightarrow> int" where
  "totalStock_variants [] tot = tot"
| "totalStock_variants (variant # rest) tot =
     totalStock_variants rest
       (if length (sizes variant) > 0 then totalStock_sizes (sizes variant) tot else tot)"

definition totalStock :: "'a IProduct_scheme \<Rightarrow> int" where
  "totalStock this =
     (case variants this of
        None \<Rightarrow> 0
      | Some vs \<Rightarrow> if length vs = 0 then 0 else totalStock_variants vs 0)"

subsection \<open>Method \<^verbatim>\<open>getStockBySize\<close>\<close>

text \<open>\<^verbatim>\<open>Array.prototype.find\<close> returns the first element that satisfies the predicate.\<close>

fun getStockBySize_variants :: "ColorVariant list \<Rightarrow> Size \<Rightarrow> int \<Rightarrow> int" where
  "getStockBySize_variants [] sz tot = tot"
| "getStockBySize_variants (variant # rest) sz tot =
     getStockBySize_variants rest sz
       (if length (sizes variant) > 0
        then (case find (\<lambda>s. size_sv s = sz) (sizes variant) of
                Some sizeVariant \<Rightarrow> tot + or_zero (stock sizeVariant)
              | None \<Rightarrow> tot)
        else tot)"

definition getStockBySize :: "'a IProduct_scheme \<Rightarrow> Size \<Rightarrow> int" where
  "getStockBySize this sz =
     (case variants this of
        None \<Rightarrow> 0
      | Some vs \<Rightarrow> if length vs = 0 then 0 else getStockBySize_variants vs sz 0)"

section \<open>The stock mutation (src/models/Product.ts, \<^verbatim>\<open>updateStock\<close>)\<close>

text \<open>
  The method runs on a document of \<^verbatim>\<open>productSchema\<close>, whose \<^verbatim>\<open>variants\<close> is an array of
  \<^verbatim>\<open>colorSchema\<close> subdocuments, each with an array \<^verbatim>\<open>sizes\<close> of \<^verbatim>\<open>sizeSchema\<close>
  subdocuments. \<^verbatim>\<open>find\<close> on such an array hands back a reference to the subdocument it
  holds, and a write through that reference is a write to the document. \<^verbatim>\<open>push\<close> on such
  an array does not store the object it is given: it stores a subdocument cast from it by
  the schema, and the object stays a plain object outside the document. A local variable
  of the method is therefore one of two things.
\<close>

datatype 'a Ref = InDocument nat | Plain 'a

text \<open>
  \<^term>\<open>InDocument\<close> is a subdocument, by its position in the array that holds it (the product
  owns its colours and each colour owns its sizes, and \<^term>\<open>findIndex\<close> gives the position of
  the first match); \<^term>\<open>Plain\<close> is an object literal of the method with its present value.
\<close>

fun findIndex :: "('a \<Rightarrow> bool) \<Rightarrow> 'a list \<Rightarrow> nat option" where
  "findIndex P [] = None"
| "findIndex P (x # xs) = (if P x then Some 0 else map_option Suc (findIndex P xs))"

text \<open>
  The cast of \<^verbatim>\<open>colorSchema\<close>: \<^verbatim>\<open>color\<close> is declared \<^verbatim>\<open>trim: true\<close> and \<^verbatim>\<open>images\<close> has the
  default \<^verbatim>\<open>[]\<close>. \<^verbatim>\<open>trim\<close> removes the white space at both ends; of the characters a
  \<^typ>\<open>char\<close> holds these are the tab, the line feed, the vertical tab, the form feed, the
  carriage return and the space. The cast of \<^verbatim>\<open>sizeSchema\<close> keeps a size of either shape
  (\<^verbatim>\<open>Mixed\<close>) and a numeric stock as they are.
\<close>

definition is_whitespace :: "char \<Rightarrow> bool" where
  "is_whitespace ch \<longleftrightarrow> ch \<in> {CHR 0x09, CHR 0x0A, CHR 0x0B, CHR 0x0C, CHR 0x0D, CHR 0x20}"

definition trim :: "string \<Rightarrow> string" where
  "trim s = rev (dropWhile is_whitespace (rev (dropWhile is_whitespace s)))"

definition cast_color :: "ColorVariant \<Rightarrow> ColorVariant" where
  "cast_color v =
     \<lparr>color = trim (color v), sizes = sizes v,
      images = (case images v of None \<Rightarrow> Some [] | Some im \<Rightarrow> Some im)\<rparr>"

definition cast_size :: "SizeVariant \<Rightarrow> SizeVariant" where
  "cast_size s = \<lparr>size_sv = size_sv s, stock = stock s\<rparr>"

definition insufficient_message :: "string \<Rightarrow> Size \<Rightarrow> int \<Rightarrow> int \<Rightarrow> string" where
  "insufficient_message c sz currentStock quantity =
     ''Insufficient stock for color \"'' @ c @ ''\" size '' @ size_toString sz
       @ ''. Available: '' @ number_toString currentStock
       @ '', Requested: '' @ number_toString quantity"

text \<open>
  \<^verbatim>\<open>this.save()\<close> belongs to the storage layer; it is the parameter \<open>save\<close>, which settles
  with the stored document or rejects. The method returns its promise. The result is the
  pair of what the returned promise settles with and the in-memory document after the
  call.

  The steps are those of the method. \<open>vs1\<close> is the document's array after the colour step:
  a colour that was not found is pushed, so the array receives the cast copy and
  \<open>colorVariant\<close> remains the plain literal. \<open>vs2\<close> is the array after the size step: a
  size that was not found is pushed onto \<^verbatim>\<open>colorVariant.sizes\<close>, which is the array of
  the document when \<open>colorVariant\<close> is a subdocument and the array of the literal
  otherwise, and \<open>sizeVariant\<close> remains the plain literal. The assignment
  \<^verbatim>\<open>sizeVariant.stock = newStock\<close> reaches the document only when \<open>sizeVariant\<close> is a
  subdocument.
\<close>

definition updateStock ::
  "('a IProduct_scheme \<Rightarrow> Exn + 'a IProduct_scheme) \<Rightarrow> 'a IProduct_scheme \<Rightarrow>
     string \<Rightarrow> Size \<Rightarrow> int \<Rightarrow> (Exn + 'a IProduct_scheme) \<times> 'a IProduct_scheme" where
  "updateStock save this c sz quantity =
     (let vs0 = (case variants this of None \<Rightarrow> [] | Some vs \<Rightarrow> vs);
          (vs1, colorVariant) =
             (case findIndex (\<lambda>v. color v = c) vs0 of
                Some i \<Rightarrow> (vs0, InDocument i)
              | None \<Rightarrow>
                  (let literal = \<lparr>color = c, sizes = [], images = None\<rparr>
                   in (vs0 @ [cast_color literal], Plain literal)));
          sizes1 = (case colorVariant of InDocument i \<Rightarrow> sizes (vs1 ! i) | Plain v \<Rightarrow> sizes v);
          (vs2, sizeVariant) =
             (case findIndex (\<lambda>s. size_sv s = sz) sizes1 of
                Some j \<Rightarrow>
                  (vs1, case colorVariant of InDocument i \<Rightarrow> InDocument j | Plain v \<Rightarrow> Plain (sizes1 ! j))
              | None \<Rightarrow>
                  (let literal = \<lparr>size_sv = sz, stock = 0\<rparr>
                   in (case colorVariant of
                         InDocument i \<Rightarrow> vs1[i := (vs1 ! i)\<lparr>sizes := sizes1 @ [cast_size literal]\<rparr>]
                       | Plain v \<Rightarrow> vs1,
                       Plain literal)));
          currentStock =
             or_zero (case sizeVariant of InDocument j \<Rightarrow> stock (sizes1 ! j) | Plain s \<Rightarrow> stock s);
          newStock = currentStock + quantity
      in if newStock < 0
         then (Inl (Error (insufficient_message c sz currentStock quantity)),
               this\<lparr>variants := Some vs2\<rparr>)
         else (let vs3 =
                     (case (colorVariant, sizeVariant) of
                        (InDocument i, InDocument j) \<Rightarrow>
                          vs2[i := (vs2 ! i)\<lparr>sizes := sizes1[j := (sizes1 ! j)\<lparr>stock := newStock\<rparr>]\<rparr>]
                      | _ \<Rightarrow> vs2);
                   this' = this\<lparr>variants := Some vs3\<rparr>
               in (save this', this')))"

section \<open>The bulk endpoint (src/controllers/productController.ts, \<^verbatim>\<open>updateBulkStock\<close>)\<close>

text \<open>
  The request body is untyped JSON. A field the controller tests with \<^verbatim>\<open>typeof\<close> or for
  truthiness holds any JSON value; \<^term>\<open>JsObject\<close> stands for every object or array in
  such a place, \<^term>\<open>JsUndefined\<close> for a missing field.
\<close>

datatype JsValue = JsUndefined | JsNull | JsBoolean bool | JsNumber int | JsString string | JsObject

text \<open>
  An entry of \<^verbatim>\<open>variants\<close> or of a \<^verbatim>\<open>sizes\<close> array is any JSON value as well. The loops read
  properties of the entry without a test: on \<^verbatim>\<open>null\<close>, which is \<^term>\<open>None\<close> here, the read
  throws a \<^verbatim>\<open>TypeError\<close>; on a number, a string, a boolean or an array it gives
  \<^verbatim>\<open>undefined\<close> for each of the properties read here, as on an object without them, so
  every entry but \<^verbatim>\<open>null\<close> is the record of what these reads give. \<^verbatim>\<open>sizes\<close> is
  \<^term>\<open>None\<close> when the field is missing or holds anything that is not an array.
\<close>

record SizeUpdate =
  size_su :: JsValue
  quantity_su :: JsValue

record VariantUpdate =
  color_vu :: JsValue
  sizes_vu :: "SizeUpdate option list option"

text \<open>The loop's locals: the loaded document and the two message lists.\<close>

record 'a BulkState =
  product :: "'a IProduct_scheme"
  updates :: "string list"
  errors :: "string list"

record 'a ApiResponse =
  res_status :: nat
  res_success :: bool
  res_data :: "'a IProduct_scheme option"
  res_message :: string
  res_errors :: "string list option"

text \<open>\<^verbatim>\<open>error instanceof Error ? error.message : 'Unknown error'\<close>\<close>

fun errorMessage_of :: "Exn \<Rightarrow> string" where
  "errorMessage_of (Error m) = m"
| "errorMessage_of NonError = ''Unknown error''"

text \<open>The message of the \<^verbatim>\<open>TypeError\<close> that Node gives the read of a property of \<^verbatim>\<open>null\<close>.\<close>

definition null_read_message :: "string \<Rightarrow> string" where
  "null_read_message property =
     ''Cannot read properties of null (reading '' @ [CHR 0x27] @ property @ [CHR 0x27] @ '')''"

definition update_message :: "string \<Rightarrow> int \<Rightarrow> int \<Rightarrow> string" where
  "update_message c n q =
     c @ '' size '' @ number_toString n @ '': '' @ (if q > 0 then ''+'' else [])
       @ number_toString q"

definition update_error_message :: "string \<Rightarrow> int \<Rightarrow> Exn \<Rightarrow> string" where
  "update_error_message c n e =
     ''Error updating '' @ c @ '' size '' @ number_toString n @ '': '' @ errorMessage_of e"

definition invalid_size_message :: "string \<Rightarrow> string" where
  "invalid_size_message c = ''Invalid size for color \"'' @ c @ ''\": must be a number''"

definition invalid_quantity_message :: "string \<Rightarrow> int \<Rightarrow> string" where
  "invalid_quantity_message c n =
     ''Invalid quantity for color \"'' @ c @ ''\" size '' @ number_toString n @ '': must be a number''"

definition invalid_sizes_message :: "string \<Rightarrow> string" where
  "invalid_sizes_message c = ''Invalid variant for color \"'' @ c @ ''\": sizes must be an array''"

definition invalid_color_message :: string where
  "invalid_color_message = ''Invalid variant: color is required and must be a string''"

text \<open>
  The body of the inner loop for one entry of \<^verbatim>\<open>sizes\<close>: the exception that leaves the
  loops, if one does, and the locals. The read of \<^verbatim>\<open>sizeUpdate.size\<close> stands before the
  \<^verbatim>\<open>try\<close> block, so what it throws is not caught here. \<^verbatim>\<open>typeof x !== 'number'\<close> holds of
  every value but a \<^term>\<open>JsNumber\<close>. The \<^verbatim>\<open>try\<close> block awaits \<^verbatim>\<open>product.updateStock\<close>,
  which works on the one document loaded before the loop, and catches its rejection.
\<close>

definition size_step ::
  "('a IProduct_scheme \<Rightarrow> Exn + 'a IProduct_scheme) \<Rightarrow> string \<Rightarrow> SizeUpdate option \<Rightarrow>
     'a BulkState \<Rightarrow> Exn option \<times> 'a BulkState" where
  "size_step save c entry st =
     (case entry of
        None \<Rightarrow> (Some (Error (null_read_message ''size'')), st)
      | Some sizeUpdate \<Rightarrow>
          (None,
           case size_su sizeUpdate of
             JsNumber n \<Rightarrow>
               (case quantity_su sizeUpdate of
                  JsNumber q \<Rightarrow>
                    (case updateStock save (product st) c (NumSize n) q of
                       (Inr _, this') \<Rightarrow>
                         st\<lparr>product := this', updates := updates st @ [update_message c n q]\<rparr>
                     | (Inl e, this') \<Rightarrow>
                         st\<lparr>product := this', errors := errors st @ [update_error_message c n e]\<rparr>)
                | _ \<Rightarrow> st\<lparr>errors := errors st @ [invalid_quantity_message c n]\<rparr>)
           | _ \<Rightarrow> st\<lparr>errors := errors st @ [invalid_size_message c]\<rparr>))"

fun sizes_loop ::
  "('a IProduct_scheme \<Rightarrow> Exn + 'a IProduct_scheme) \<Rightarrow> string \<Rightarrow> SizeUpdate option list \<Rightarrow>
     'a BulkState \<Rightarrow> Exn option \<times> 'a BulkState" where
  "sizes_loop save c [] st = (None, st)"
| "sizes_loop save c (entry # rest) st =
     (case size_step save c entry st of
        (Some e, st') \<Rightarrow> (Some e, st')
      | (None, st') \<Rightarrow> sizes_loop save c rest st')"

text \<open>
  The body of the outer loop for one entry of \<^verbatim>\<open>variants\<close>. \<^verbatim>\<open>!variant.color || typeof
  variant.color !== 'string'\<close> lets through the non-empty strings only.
\<close>

definition variant_step ::
  "('a IProduct_scheme \<Rightarrow> Exn + 'a IProduct_scheme) \<Rightarrow> VariantUpdate option \<Rightarrow>
     'a BulkState \<Rightarrow> Exn option \<times> 'a BulkState" where
  "variant_step save entry st =
     (case entry of
        None \<Rightarrow> (Some (Error (null_read_message ''color'')), st)
      | Some variant \<Rightarrow>
          (case color_vu variant of
             JsString c \<Rightarrow>
               (if c = [] then (None, st\<lparr>errors := errors st @ [invalid_color_message]\<rparr>)
                else (case sizes_vu variant of
                        None \<Rightarrow> (None, st\<lparr>errors := errors st @ [invalid_sizes_message c]\<rparr>)
                      | Some sizeUpdates \<Rightarrow> sizes_loop save c sizeUpdates st))
           | _ \<Rightarrow> (None, st\<lparr>errors := errors st @ [invalid_color_message]\<rparr>)))"

fun variants_loop ::
  "('a IProduct_scheme \<Rightarrow> Exn + 'a IProduct_scheme) \<Rightarrow> VariantUpdate option list \<Rightarrow>
     'a BulkState \<Rightarrow> Exn option \<times> 'a BulkState" where
  "variants_loop save [] st = (None, st)"
| "variants_loop save (entry # rest) st =
     (case variant_step save entry st of
        (Some e, st') \<Rightarrow> (Some e, st')
      | (None, st') \<Rightarrow> variants_loop save rest st')"

text \<open>The answer of the outer \<^verbatim>\<open>catch\<close>.\<close>

definition server_error :: "Exn \<Rightarrow> 'a ApiResponse" where
  "server_error e =
     \<lparr>res_status = 500, res_success = False, res_data = None,
      res_message = ''Error updating bulk stock'', res_errors = Some [errorMessage_of e]\<rparr>"

text \<open>
  The controller from the body check on. \<open>body_variants\<close> is \<^term>\<open>None\<close> when \<^verbatim>\<open>variants\<close>
  is missing or not an array; \<open>found\<close> is what the promise of \<^verbatim>\<open>Product.findById\<close> settled
  with. An exception that leaves the loops, and a rejection of \<^verbatim>\<open>findById\<close>, reach the
  outer \<^verbatim>\<open>catch\<close>; the documents that \<^verbatim>\<open>save\<close> has stored by then stay stored.
\<close>

definition updateBulkStock ::
  "('a IProduct_scheme \<Rightarrow> Exn + 'a IProduct_scheme) \<Rightarrow> Exn + 'a IProduct_scheme option \<Rightarrow>
     VariantUpdate option list option \<Rightarrow> 'a ApiResponse" where
  "updateBulkStock save found body_variants =
     (case body_variants of
        None \<Rightarrow>
          \<lparr>res_status = 400, res_success = False, res_data = None,
           res_message = ''variants is required and must be an array of color variants with sizes'',
           res_errors = None\<rparr>
      | Some entries \<Rightarrow>
          (case found of
             Inl e \<Rightarrow> server_error e
           | Inr None \<Rightarrow>
               \<lparr>res_status = 404, res_success = False, res_data = None,
                res_message = ''Product not found'', res_errors = None\<rparr>
           | Inr (Some product0) \<Rightarrow>
               (case variants_loop save entries \<lparr>product = product0, updates = [], errors = []\<rparr> of
                  (Some e, st) \<Rightarrow> server_error e
                | (None, st) \<Rightarrow>
                    if length (errors st) > 0 \<and> length (updates st) = 0
                    then \<lparr>res_status = 400, res_success = False, res_data = None,
                          res_message = ''Failed to update stock'', res_errors = Some (errors st)\<rparr>
                    else \<lparr>res_status = 200, res_success = True, res_data = Some (product st),
                          res_message = ''Stock updated for '' @ number_toString (int (length (updates st)))
                            @ '' color-size combination(s)'',
                          res_errors = (if length (errors st) > 0 then Some (errors st) else None)\<rparr>)))"

section \<open>Observations used in the statements\<close>

text \<open>
  The colours of a product, none when \<^verbatim>\<open>variants\<close> is absent, and every SizeVariant of the
  product, colour by colour, in order.
\<close>

definition variants_list :: "'a IProduct_scheme \<Rightarrow> ColorVariant list" where
  "variants_list this = (case variants this of None \<Rightarrow> [] | Some vs \<Rightarrow> vs)"

definition all_sizes :: "'a IProduct_scheme \<Rightarrow> SizeVariant list" where
  "all_sizes this = concat (map sizes (variants_list this))"

text \<open>The data model's invariant: no SizeVariant holds a negative stock.\<close>

definition stock_nonneg :: "'a IProduct_scheme \<Rightarrow> bool" where
  "stock_nonneg this = list_all (\<lambda>s. 0 \<le> stock s) (all_sizes this)"

text \<open>
  The size schema's validator: within one colour no two SizeVariants have the same size.
\<close>

definition sizes_unique :: "'a IProduct_scheme \<Rightarrow> bool" where
  "sizes_unique this = list_all (\<lambda>v. distinct (map size_sv (sizes v))) (variants_list this)"

text \<open>
  The slot that a (colour, size) pair addresses, found as \<^verbatim>\<open>updateStock\<close> finds it: the first
  colour that matches, then its first size that matches. The pre-delta stock of a pair is the
  stock of its slot, and 0 when the slot is yet to be created.
\<close>

definition slot :: "'a IProduct_scheme \<Rightarrow> string \<Rightarrow> Size \<Rightarrow> SizeVariant option" where
  "slot this c sz =
     (case find (\<lambda>v. color v = c) (variants_list this) of
        None \<Rightarrow> None
      | Some v \<Rightarrow> find (\<lambda>s. size_sv s = sz) (sizes v))"

definition currentStock_of :: "'a IProduct_scheme \<Rightarrow> string \<Rightarrow> Size \<Rightarrow> int" where
  "currentStock_of this c sz = (case slot this c sz of None \<Rightarrow> 0 | Some s \<Rightarrow> stock s)"

text \<open>
  A sequence of \<^verbatim>\<open>updateStock\<close> calls on one document: the in-memory document after each
  call, whether its promise resolved or rejected.
\<close>

fun updateStock_seq ::
  "('a IProduct_scheme \<Rightarrow> Exn + 'a IProduct_scheme) \<Rightarrow> 'a IProduct_scheme \<Rightarrow>
     (string \<times> Size \<times> int) list \<Rightarrow> 'a IProduct_scheme list" where
  "updateStock_seq save this [] = []"
| "updateStock_seq save this ((c, sz, quantity) # calls) =
     (let this' = snd (updateStock save this c sz quantity)
      in this' # updateStock_seq save this' calls)"

text \<open>
  The validator of \<^verbatim>\<open>sizes\<close> in \<^verbatim>\<open>colorSchema\<close>, which \<^verbatim>\<open>save\<close> runs: the array is not
  empty and holds as many sizes as the \<^verbatim>\<open>Set\<close> of them.
\<close>

definition sizes_validator :: "SizeVariant list \<Rightarrow> bool" where
  "sizes_validator v =
     (if length v = 0 then False
      else length (map size_sv v) = length (remdups (map size_sv v)))"

text \<open>
  The bulk loop as the specification words it: the entries of the body in input order, each
  either malformed, with its message, or a triple of colour, size and quantity; and a fold
  that hands every triple to \<^verbatim>\<open>updateStock\<close> and files its outcome. It is worded for
  entries that are objects: \<^term>\<open>entries_present\<close> says that no entry of \<^verbatim>\<open>variants\<close> and
  no entry of a \<^verbatim>\<open>sizes\<close> array is \<^verbatim>\<open>null\<close>, and \<^term>\<open>objects\<close> are the entries of an array
  that are not.
\<close>

datatype BulkItem = Malformed string | Triple string int int

fun objects :: "'a option list \<Rightarrow> 'a list" where
  "objects [] = []"
| "objects (None # es) = objects es"
| "objects (Some x # es) = x # objects es"

definition entries_present :: "VariantUpdate option list \<Rightarrow> bool" where
  "entries_present entries =
     list_all (\<lambda>entry. case entry of
                 None \<Rightarrow> False
               | Some variant \<Rightarrow>
                   (case sizes_vu variant of
                      None \<Rightarrow> True
                    | Some sizeUpdates \<Rightarrow> list_all (\<lambda>u. u \<noteq> None) sizeUpdates)) entries"

definition size_item :: "string \<Rightarrow> SizeUpdate \<Rightarrow> BulkItem" where
  "size_item c sizeUpdate =
     (case size_su sizeUpdate of
        JsNumber n \<Rightarrow>
          (case quantity_su sizeUpdate of
             JsNumber q \<Rightarrow> Triple c n q
           | _ \<Rightarrow> Malformed (invalid_quantity_message c n))
      | _ \<Rightarrow> Malformed (invalid_size_message c))"

definition variant_items :: "VariantUpdate \<Rightarrow> BulkItem list" where
  "variant_items variant =
     (case color_vu variant of
        JsString c \<Rightarrow>
          (if c = [] then [Malformed invalid_color_message]
           else (case sizes_vu variant of
                   None \<Rightarrow> [Malformed (invalid_sizes_message c)]
                 | Some sizeUpdates \<Rightarrow> map (size_item c) (objects sizeUpdates)))
      | _ \<Rightarrow> [Malformed invalid_color_message])"

definition bulk_items :: "VariantUpdate option list \<Rightarrow> BulkItem list" where
  "bulk_items entries = concat (map variant_items (objects entries))"

fun apply_item ::
  "('a IProduct_scheme \<Rightarrow> Exn + 'a IProduct_scheme) \<Rightarrow> 'a BulkState \<Rightarrow> BulkItem \<Rightarrow>
     'a BulkState" where
  "apply_item save st (Malformed m) = st\<lparr>errors := errors st @ [m]\<rparr>"
| "apply_item save st (Triple c n q) =
     (case updateStock save (product st) c (NumSize n) q of
        (Inr _, this') \<Rightarrow> st\<lparr>product := this', updates := updates st @ [update_message c n q]\<rparr>
      | (Inl e, this') \<Rightarrow> st\<lparr>product := this', errors := errors st @ [update_error_message c n e]\<rparr>)"

text \<open>The in-memory effect of one item on the document: a malformed entry has none.\<close>

fun item_effect ::
  "('a IProduct_scheme \<Rightarrow> Exn + 'a IProduct_scheme) \<Rightarrow> 'a IProduct_scheme \<Rightarrow> BulkItem \<Rightarrow>
     'a IProduct_scheme" where
  "item_effect save this (Malformed m) = this"
| "item_effect save this (Triple c n q) = snd (updateStock save this c (NumSize n) q)"

text \<open>What \<^verbatim>\<open>getStockBySize\<close> adds for one colour: the stock of its first matching size.\<close>

definition matched_stock :: "Size \<Rightarrow> ColorVariant \<Rightarrow> int" where
  "matched_stock sz v = (case find (\<lambda>s. size_sv s = sz) (sizes v) of None \<Rightarrow> 0 | Some s \<Rightarrow> stock s)"

section \<open>Example documents and requests\<close>

text \<open>A document with the single slot black / 8, for the scenarios of the specification.\<close>

definition black8 :: "int \<Rightarrow> IProduct" where
  "black8 k = \<lparr>variants = Some [\<lparr>color = ''black'', sizes = [\<lparr>size_sv = NumSize 8, stock = k\<rparr>], images = Some []\<rparr>]\<rparr>"

text \<open>One colour that holds the number 8 and the string "8" side by side.\<close>

definition black_two_eights :: IProduct where
  "black_two_eights =
     \<lparr>variants = Some [\<lparr>color = ''black'',
                        sizes = [\<lparr>size_sv = NumSize 8, stock = 10\<rparr>, \<lparr>size_sv = StrSize ''8'', stock = 4\<rparr>],
                        images = Some []\<rparr>]\<rparr>"

text \<open>A colour in which the size 8 occurs twice, which the size schema's validator rejects.\<close>

definition black_duplicate_eights :: IProduct where
  "black_duplicate_eights =
     \<lparr>variants = Some [\<lparr>color = ''black'',
                        sizes = [\<lparr>size_sv = NumSize 8, stock = 3\<rparr>, \<lparr>size_sv = NumSize 8, stock = 4\<rparr>],
                        images = None\<rparr>]\<rparr>"

definition two_colours :: IProduct where
  "two_colours =
     \<lparr>variants = Some [\<lparr>color = ''black'',
                        sizes = [\<lparr>size_sv = NumSize 8, stock = 10\<rparr>, \<lparr>size_sv = NumSize 9, stock = 1\<rparr>],
                        images = None\<rparr>,
                       \<lparr>color = ''white'',
                        sizes = [\<lparr>size_sv = StrSize ''M'', stock = 2\<rparr>, \<lparr>size_sv = NumSize 8, stock = 7\<rparr>],
                        images = Some []\<rparr>]\<rparr>"

text \<open>
  Scenario D on existing slots: a bulk request with a triple that asks for more than is
  there and a triple that restocks. The same on a size that is yet to be created, and a
  request whose second entry is \<^verbatim>\<open>null\<close>.
\<close>

definition scenario_D :: "VariantUpdate option list" where
  "scenario_D =
     [Some \<lparr>color_vu = JsString ''black'',
            sizes_vu = Some [Some \<lparr>size_su = JsNumber 8, quantity_su = JsNumber (- 20)\<rparr>,
                             Some \<lparr>size_su = JsNumber 9, quantity_su = JsNumber 5\<rparr>]\<rparr>]"

definition restock_then_null :: "VariantUpdate option list" where
  "restock_then_null =
     [Some \<lparr>color_vu = JsString ''black'',
            sizes_vu = Some [Some \<lparr>size_su = JsNumber 8, quantity_su = JsNumber 5\<rparr>]\<rparr>,
      None]"

section \<open>Facts about the search\<close>

lemma or_zero_id [simp]: "or_zero x = x"
  by (simp add: or_zero_def)

lemma findIndex_miss: "\<forall>u\<in>set xs. \<not> P u \<Longrightarrow> findIndex P xs = None"
  by (induction xs) simp_all

lemma findIndex_hit:
  "\<forall>u\<in>set pre. \<not> P u \<Longrightarrow> P v \<Longrightarrow> findIndex P (pre @ v # post) = Some (length pre)"
  by (induction pre) simp_all

lemma findIndex_cases:
  "(findIndex P xs = None \<and> (\<forall>u\<in>set xs. \<not> P u)) \<or>
   (\<exists>pre v post. xs = pre @ v # post \<and> (\<forall>u\<in>set pre. \<not> P u) \<and> P v)"
proof (induction xs)
  case Nil
  then show ?case by simp
next
  case (Cons x xs)
  show ?case
  proof (cases "P x")
    case True
    then have "x # xs = [] @ x # xs \<and> (\<forall>u\<in>set []. \<not> P u) \<and> P x" by simp
    then show ?thesis by blast
  next
    case False
    from Cons.IH show ?thesis
    proof
      assume "findIndex P xs = None \<and> (\<forall>u\<in>set xs. \<not> P u)"
      with False show ?thesis by simp
    next
      assume "\<exists>pre v post. xs = pre @ v # post \<and> (\<forall>u\<in>set pre. \<not> P u) \<and> P v"
      then obtain pre v post where "xs = pre @ v # post" "\<forall>u\<in>set pre. \<not> P u" "P v" by blast
      with False have "x # xs = (x # pre) @ v # post \<and> (\<forall>u\<in>set (x # pre). \<not> P u) \<and> P v"
        by simp
      then show ?thesis by blast
    qed
  qed
qed

lemma find_miss: "\<forall>u\<in>set xs. \<not> P u \<Longrightarrow> find P xs = None"
  by (induction xs) simp_all

lemma find_hit: "\<forall>u\<in>set pre. \<not> P u \<Longrightarrow> P v \<Longrightarrow> find P (pre @ v # post) = Some v"
  by (induction pre) simp_all

lemma find_skip: "\<not> P v \<Longrightarrow> \<not> P w \<Longrightarrow> find P (pre @ v # post) = find P (pre @ w # post)"
  by (induction pre) simp_all

lemma find_snoc_miss: "\<not> P x \<Longrightarrow> find P (xs @ [x]) = find P xs"
  by (induction xs) simp_all

section \<open>The three cases of \<^verbatim>\<open>updateStock\<close>\<close>

text \<open>
  The colour is new; the colour exists and the size is new; both exist. In each case the
  whole result of the call is written out, for the rejected and for the accepted delta.
  Only in the third does the accepted delta reach the document.
\<close>


lemma cast_size_id [simp]: "cast_size s = s"
  by (simp add: cast_size_def)

lemma variants_list_update [simp]: "variants_list (this\<lparr>variants := Some vs\<rparr>) = vs"
  by (simp add: variants_list_def)

lemma updateStock_new_color:
  assumes "variants_list this = vs" and "\<forall>v\<in>set vs. color v \<noteq> c"
  shows "updateStock save this c sz q =
     (if q < 0
      then (Inl (Error (insufficient_message c sz 0 q)),
            this\<lparr>variants := Some (vs @ [\<lparr>color = trim c, sizes = [], images = Some []\<rparr>])\<rparr>)
      else (save (this\<lparr>variants := Some (vs @ [\<lparr>color = trim c, sizes = [], images = Some []\<rparr>])\<rparr>),
            this\<lparr>variants := Some (vs @ [\<lparr>color = trim c, sizes = [], images = Some []\<rparr>])\<rparr>))"
proof -
  have vs0: "(case variants this of None \<Rightarrow> [] | Some vs \<Rightarrow> vs) = vs"
    using assms(1) by (simp add: variants_list_def)
  have miss: "findIndex (\<lambda>v. color v = c) vs = None"
    using assms(2) by (simp add: findIndex_miss)
  show ?thesis
    by (simp add: updateStock_def vs0 miss Let_def cast_color_def)
qed

lemma updateStock_new_size:
  assumes "variants_list this = pre @ v # post" and "\<forall>u\<in>set pre. color u \<noteq> c" and "color v = c"
    and "\<forall>s\<in>set (sizes v). size_sv s \<noteq> sz"
  shows "updateStock save this c sz q =
     (if q < 0
      then (Inl (Error (insufficient_message c sz 0 q)),
            this\<lparr>variants := Some (pre @ v\<lparr>sizes := sizes v @ [\<lparr>size_sv = sz, stock = 0\<rparr>]\<rparr> # post)\<rparr>)
      else (save (this\<lparr>variants := Some (pre @ v\<lparr>sizes := sizes v @ [\<lparr>size_sv = sz, stock = 0\<rparr>]\<rparr> # post)\<rparr>),
            this\<lparr>variants := Some (pre @ v\<lparr>sizes := sizes v @ [\<lparr>size_sv = sz, stock = 0\<rparr>]\<rparr> # post)\<rparr>))"
proof -
  have vs0: "(case variants this of None \<Rightarrow> [] | Some vs \<Rightarrow> vs) = pre @ v # post"
    using assms(1) by (simp add: variants_list_def)
  have hit: "findIndex (\<lambda>v. color v = c) (pre @ v # post) = Some (length pre)"
    using assms(2,3) by (simp add: findIndex_hit)
  have miss: "findIndex (\<lambda>s. size_sv s = sz) (sizes v) = None"
    using assms(4) by (simp add: findIndex_miss)
  show ?thesis
    by (simp add: updateStock_def vs0 hit miss Let_def)
qed

lemma updateStock_existing:
  assumes "variants_list this = pre @ v # post" and "\<forall>u\<in>set pre. color u \<noteq> c" and "color v = c"
    and "sizes v = spre @ s # spost" and "\<forall>t\<in>set spre. size_sv t \<noteq> sz" and "size_sv s = sz"
  shows "updateStock save this c sz q =
     (if stock s + q < 0
      then (Inl (Error (insufficient_message c sz (stock s) q)), this\<lparr>variants := Some (pre @ v # post)\<rparr>)
      else (save (this\<lparr>variants := Some (pre @ v\<lparr>sizes := spre @ s\<lparr>stock := stock s + q\<rparr> # spost\<rparr> # post)\<rparr>),
            this\<lparr>variants := Some (pre @ v\<lparr>sizes := spre @ s\<lparr>stock := stock s + q\<rparr> # spost\<rparr> # post)\<rparr>))"
proof -
  have vs0: "(case variants this of None \<Rightarrow> [] | Some vs \<Rightarrow> vs) = pre @ v # post"
    using assms(1) by (simp add: variants_list_def)
  have hit: "findIndex (\<lambda>v. color v = c) (pre @ v # post) = Some (length pre)"
    using assms(2,3) by (simp add: findIndex_hit)
  have hit2: "findIndex (\<lambda>s. size_sv s = sz) (spre @ s # spost) = Some (length spre)"
    using assms(5,6) by (simp add: findIndex_hit)
  show ?thesis
    by (simp add: updateStock_def vs0 hit hit2 assms(4) Let_def)
qed

lemma updateStock_cases:
  obtains
    (new_color) vs where "variants_list this = vs" "\<forall>v\<in>set vs. color v \<noteq> c"
  | (new_size) pre v post where "variants_list this = pre @ v # post"
      "\<forall>u\<in>set pre. color u \<noteq> c" "color v = c" "\<forall>s\<in>set (sizes v). size_sv s \<noteq> sz"
  | (existing) pre v post spre s spost where "variants_list this = pre @ v # post"
      "\<forall>u\<in>set pre. color u \<noteq> c" "color v = c"
      "sizes v = spre @ s # spost" "\<forall>t\<in>set spre. size_sv t \<noteq> sz" "size_sv s = sz"
proof -
  from findIndex_cases [of "\<lambda>v. color v = c" "variants_list this"]
  consider "\<forall>u\<in>set (variants_list this). color u \<noteq> c"
    | pre v post where "variants_list this = pre @ v # post" "\<forall>u\<in>set pre. color u \<noteq> c" "color v = c"
    by blast
  then show thesis
  proof cases
    case 1
    then show ?thesis using new_color by blast
  next
    case (2 pre v post)
    from findIndex_cases [of "\<lambda>s. size_sv s = sz" "sizes v"]
    consider "\<forall>s\<in>set (sizes v). size_sv s \<noteq> sz"
      | spre s spost where "sizes v = spre @ s # spost" "\<forall>t\<in>set spre. size_sv t \<noteq> sz" "size_sv s = sz"
      by blast
    then show ?thesis
    proof cases
      case 1
      with 2 show ?thesis using new_size by blast
    next
      case (2 spre s spost)
      with \<open>variants_list this = pre @ v # post\<close> \<open>\<forall>u\<in>set pre. color u \<noteq> c\<close> \<open>color v = c\<close>
      show ?thesis using existing by blast
    qed
  qed
qed

lemma currentStock_of_new_color:
  "variants_list this = vs \<Longrightarrow> \<forall>v\<in>set vs. color v \<noteq> c \<Longrightarrow> slot this c sz = None"
  by (simp add: slot_def find_miss)

lemma currentStock_of_new_size:
  "variants_list this = pre @ v # post \<Longrightarrow> \<forall>u\<in>set pre. color u \<noteq> c \<Longrightarrow> color v = c \<Longrightarrow>
   \<forall>s\<in>set (sizes v). size_sv s \<noteq> sz \<Longrightarrow> slot this c sz = None"
  by (simp add: slot_def find_miss find_hit)

lemma currentStock_of_existing:
  "variants_list this = pre @ v # post \<Longrightarrow> \<forall>u\<in>set pre. color u \<noteq> c \<Longrightarrow> color v = c \<Longrightarrow>
   sizes v = spre @ s # spost \<Longrightarrow> \<forall>t\<in>set spre. size_sv t \<noteq> sz \<Longrightarrow> size_sv s = sz \<Longrightarrow>
   slot this c sz = Some s"
  by (simp add: slot_def find_hit)

lemma updateStock_outcome:
  "fst (updateStock save this c sz q) =
     (if currentStock_of this c sz + q < 0
      then Inl (Error (insufficient_message c sz (currentStock_of this c sz) q))
      else save (snd (updateStock save this c sz q)))"
proof (cases rule: updateStock_cases [where this = this and c = c and sz = sz])
  case (new_color vs)
  then show ?thesis
    by (simp add: updateStock_new_color [OF new_color] currentStock_of_def
        currentStock_of_new_color [OF new_color])
next
  case (new_size pre v post)
  then show ?thesis
    by (simp add: updateStock_new_size [OF new_size] currentStock_of_def
        currentStock_of_new_size [OF new_size])
next
  case (existing pre v post spre s spost)
  then show ?thesis
    by (simp add: updateStock_existing [OF existing] currentStock_of_def
        currentStock_of_existing [OF existing])
qed

lemma number_toString_examples:
  "number_toString 5 = ''5''" "number_toString (- 10) = ''-10''" "number_toString 8 = ''8''"
  by (simp_all add: number_toString_def nat_toString.simps digit_char_def)

section \<open>\<^verbatim>\<open>totalStock\<close>\<close>

lemma totalStock_sizes_sum:
  "totalStock_sizes svs tot = tot + sum_list (map stock svs)"
  by (induction svs arbitrary: tot) simp_all

lemma totalStock_variants_sum:
  "totalStock_variants vs tot = tot + sum_list (map stock (concat (map sizes vs)))"
  by (induction vs arbitrary: tot) (simp_all add: totalStock_sizes_sum)

lemma totalStock_sum: "totalStock this = sum_list (map stock (all_sizes this))"
  by (simp add: totalStock_def all_sizes_def variants_list_def totalStock_variants_sum
      split: option.splits)

text \<open>
  C4. \<^verbatim>\<open>totalStock\<close> is the sum of \<^verbatim>\<open>stock\<close> over every SizeVariant of every ColorVariant
  of the product, and it is 0 when \<^verbatim>\<open>variants\<close> is absent or empty.
\<close>

theorem totalStock_is_sum:
  "totalStock this = sum_list (map stock (all_sizes this))
   \<and> totalStock (this\<lparr>variants := None\<rparr>) = 0
   \<and> totalStock (this\<lparr>variants := Some []\<rparr>) = 0"
  by (simp add: totalStock_sum all_sizes_def variants_list_def)

section \<open>\<^verbatim>\<open>inStock\<close>\<close>

lemma inStock_sizes_iff: "inStock_sizes svs \<longleftrightarrow> (\<exists>s\<in>set svs. 0 < stock s)"
  by (induction svs) auto

lemma inStock_variants_iff:
  "inStock_variants vs \<longleftrightarrow> (\<exists>s\<in>set (concat (map sizes vs)). 0 < stock s)"
  by (induction vs) (auto simp: inStock_sizes_iff)

text \<open>
  C6. \<^verbatim>\<open>inStock\<close> is true exactly when some SizeVariant of some ColorVariant has a stock
  above 0, and it is false when \<^verbatim>\<open>variants\<close> is absent or empty.
\<close>

theorem inStock_iff:
  "(inStock this \<longleftrightarrow> (\<exists>s\<in>set (all_sizes this). 0 < stock s))
   \<and> \<not> inStock (this\<lparr>variants := None\<rparr>)
   \<and> \<not> inStock (this\<lparr>variants := Some []\<rparr>)"
  by (auto simp: inStock_def all_sizes_def variants_list_def inStock_variants_iff
      split: option.splits)

section \<open>\<^verbatim>\<open>getStockBySize\<close>\<close>

lemma getStockBySize_variants_first:
  "getStockBySize_variants vs sz tot = tot + sum_list (map (matched_stock sz) vs)"
  by (induction vs arbitrary: tot) (auto simp: matched_stock_def split: option.splits)

lemma getStockBySize_first:
  "getStockBySize this sz = sum_list (map (matched_stock sz) (variants_list this))"
  by (simp add: getStockBySize_def variants_list_def getStockBySize_variants_first
      split: option.splits)

lemma find_distinct_sum:
  "distinct (map size_sv svs) \<Longrightarrow>
   (case find (\<lambda>s. size_sv s = sz) svs of Some sizeVariant \<Rightarrow> tot + or_zero (stock sizeVariant) | None \<Rightarrow> tot)
     = tot + sum_list (map stock (filter (\<lambda>s. size_sv s = sz) svs))"
proof (induction svs)
  case Nil
  then show ?case by simp
next
  case (Cons a svs)
  show ?case
  proof (cases "size_sv a = sz")
    case True
    from Cons.prems have "size_sv a \<notin> size_sv ` set svs" by simp
    with True have "\<forall>x\<in>set svs. size_sv x \<noteq> sz" by blast
    then have "filter (\<lambda>s. size_sv s = sz) svs = []"
      by (simp add: filter_empty_conv)
    with True show ?thesis by simp
  next
    case False
    with Cons show ?thesis by simp
  qed
qed

lemma getStockBySize_variants_sum:
  "list_all (\<lambda>v. distinct (map size_sv (sizes v))) vs \<Longrightarrow>
   getStockBySize_variants vs sz tot
     = tot + sum_list (map stock (filter (\<lambda>s. size_sv s = sz) (concat (map sizes vs))))"
proof (induction vs arbitrary: tot)
  case Nil
  then show ?case by simp
next
  case (Cons v vs)
  then show ?case by (simp add: find_distinct_sum)
qed

text \<open>
  C5, as stated, fails on a colour that lists a size twice: \<^verbatim>\<open>find\<close> stops at the first
  match, so the query answers 3 where the matching stocks sum to 7.
\<close>

theorem getStockBySize_duplicate_sizes:
  "getStockBySize black_duplicate_eights (NumSize 8) = 3
   \<and> sum_list (map stock (filter (\<lambda>s. size_sv s = NumSize 8) (all_sizes black_duplicate_eights))) = 7"
  by (simp add: black_duplicate_eights_def getStockBySize_def all_sizes_def variants_list_def)

text \<open>
  C5, amended. For every product whose sizes are unique within each colour, as the size
  schema's validator requires, and for every size, \<^verbatim>\<open>getStockBySize\<close> is the sum of \<^verbatim>\<open>stock\<close>
  over every SizeVariant of every ColorVariant whose size is equal to it in type and value,
  however many colours there are.
\<close>

theorem getStockBySize_is_sum:
  "sizes_unique this \<Longrightarrow>
   getStockBySize this sz = sum_list (map stock (filter (\<lambda>s. size_sv s = sz) (all_sizes this)))"
  by (simp add: getStockBySize_def sizes_unique_def all_sizes_def variants_list_def
      getStockBySize_variants_sum split: option.splits)

text \<open>Two colours, size 8 in both: 10 + 7.\<close>

theorem getStockBySize_is_sum_witness:
  "sizes_unique two_colours \<and> getStockBySize two_colours (NumSize 8) = 17"
  using getStockBySize_is_sum [where this = two_colours and sz = "NumSize 8"]
  by (simp add: two_colours_def sizes_unique_def getStockBySize_def all_sizes_def variants_list_def)

section \<open>The invariant\<close>

lemma updateStock_keeps_nonneg:
  assumes "stock_nonneg this"
  shows "stock_nonneg (snd (updateStock save this c sz q))"
proof (cases rule: updateStock_cases [where this = this and c = c and sz = sz])
  case (new_color vs)
  with assms show ?thesis
    by (simp add: updateStock_new_color [OF new_color] stock_nonneg_def all_sizes_def)
next
  case (new_size pre v post)
  with assms show ?thesis
    by (simp add: updateStock_new_size [OF new_size] stock_nonneg_def all_sizes_def)
next
  case (existing pre v post spre s spost)
  with assms show ?thesis
    by (simp add: updateStock_existing [OF existing] stock_nonneg_def all_sizes_def)
qed

lemma updateStock_seq_length: "length (updateStock_seq save this calls) = length calls"
proof (induction calls arbitrary: this)
  case Nil
  then show ?case by simp
next
  case (Cons call calls)
  obtain c sz q where "call = (c, sz, q)" by (cases call)
  with Cons.IH show ?case by (simp add: Let_def)
qed

lemma updateStock_seq_keeps_nonneg:
  "stock_nonneg this \<Longrightarrow> list_all stock_nonneg (updateStock_seq save this calls)"
proof (induction calls arbitrary: this)
  case Nil
  then show ?case by simp
next
  case (Cons call calls)
  obtain c sz q where call: "call = (c, sz, q)" by (cases call)
  from Cons.prems have "stock_nonneg (snd (updateStock save this c sz q))"
    by (rule updateStock_keeps_nonneg)
  with Cons.IH show ?case by (simp add: call Let_def)
qed

text \<open>
  C1. If no SizeVariant of a product holds a negative stock, then after every call of a
  sequence of \<^verbatim>\<open>updateStock\<close> calls on it no SizeVariant holds a negative stock: the
  sequence yields one document per call and each of them satisfies the invariant, after
  the calls that resolve and after those that reject alike, whatever \<^verbatim>\<open>save\<close> does.
\<close>

theorem updateStock_seq_stock_nonneg:
  "stock_nonneg this \<Longrightarrow>
   length (updateStock_seq save this calls) = length calls
   \<and> list_all stock_nonneg (updateStock_seq save this calls)"
  by (simp add: updateStock_seq_length updateStock_seq_keeps_nonneg)

text \<open>
  Ten in stock; take five, ask for ten more than is left, name a new colour, put three
  back.
\<close>

theorem updateStock_seq_stock_nonneg_witness:
  "stock_nonneg (black8 10)
   \<and> list_all stock_nonneg
        (updateStock_seq Inr (black8 10)
           [(''black'', NumSize 8, - 5), (''black'', NumSize 8, - 10), (''red'', StrSize ''M'', 3),
            (''black'', NumSize 8, 3)])
   \<and> map totalStock
        (updateStock_seq Inr (black8 10)
           [(''black'', NumSize 8, - 5), (''black'', NumSize 8, - 10), (''red'', StrSize ''M'', 3),
            (''black'', NumSize 8, 3)])
       = [5, 5, 5, 8]"
  using updateStock_seq_stock_nonneg [where this = "black8 10" and save = Inr
      and calls = "[(''black'', NumSize 8, - 5), (''black'', NumSize 8, - 10), (''red'', StrSize ''M'', 3),
            (''black'', NumSize 8, 3)]"]
  by (simp add: black8_def stock_nonneg_def all_sizes_def variants_list_def updateStock_def Let_def
      totalStock_def cast_color_def trim_def is_whitespace_def)

section \<open>Find or create\<close>

text \<open>
  C3. The code does not do what the claim says for a slot it creates. On the document with
  black / 8 at 5, a call for a new colour leaves that colour in the document without any
  size, and a call for a new size under black leaves that size at stock 0: in both the
  delta is lost, since the size and the stock are written to the plain literals. Only on
  the existing slot does the stock become the previous stock plus the quantity.
\<close>

theorem updateStock_created_slot_loses_delta:
  "snd (updateStock save (black8 5) ''red'' (NumSize 9) 3)
     = \<lparr>variants = Some [\<lparr>color = ''black'', sizes = [\<lparr>size_sv = NumSize 8, stock = 5\<rparr>], images = Some []\<rparr>,
                         \<lparr>color = ''red'', sizes = [], images = Some []\<rparr>]\<rparr>
   \<and> snd (updateStock save (black8 5) ''black'' (StrSize ''M'') 2)
     = \<lparr>variants = Some [\<lparr>color = ''black'',
                          sizes = [\<lparr>size_sv = NumSize 8, stock = 5\<rparr>, \<lparr>size_sv = StrSize ''M'', stock = 0\<rparr>],
                          images = Some []\<rparr>]\<rparr>
   \<and> snd (updateStock save (black8 5) ''black'' (NumSize 8) (- 5)) = black8 0"
  by (simp add: black8_def updateStock_def Let_def cast_color_def trim_def is_whitespace_def)

section \<open>An absent \<^verbatim>\<open>variants\<close>\<close>

lemma updateStock_absent_as_empty:
  "updateStock save (this\<lparr>variants := None\<rparr>) c sz q
     = updateStock save (this\<lparr>variants := Some []\<rparr>) c sz q"
  by (simp add: updateStock_def Let_def)

text \<open>
  C10. The code does not do what the claim says. On a document without \<^verbatim>\<open>variants\<close> the
  method does start from the empty array, but a positive delta leaves one colour with no
  size at all, and this is the document handed to \<^verbatim>\<open>save\<close>: it fails the validator of
  \<^verbatim>\<open>sizes\<close>, which wants an array that is not empty.
\<close>

theorem updateStock_absent_variants:
  "updateStock save \<lparr>variants = None\<rparr> ''red'' (NumSize 9) 3
     = (save \<lparr>variants = Some [\<lparr>color = ''red'', sizes = [], images = Some []\<rparr>]\<rparr>,
        \<lparr>variants = Some [\<lparr>color = ''red'', sizes = [], images = Some []\<rparr>]\<rparr>)
   \<and> \<not> list_all (\<lambda>v. sizes_validator (sizes v))
         (variants_list \<lparr>variants = Some [\<lparr>color = ''red'', sizes = [], images = Some []\<rparr>]\<rparr>)"
  by (simp add: updateStock_def Let_def cast_color_def trim_def is_whitespace_def
      sizes_validator_def variants_list_def)

section \<open>Insufficient stock\<close>

lemma slot_append_empty_colour:
  "sizes w = [] \<Longrightarrow>
   (case find P (vs @ [w]) of None \<Rightarrow> None | Some v \<Rightarrow> find Q (sizes v))
     = (case find P vs of None \<Rightarrow> None | Some v \<Rightarrow> find Q (sizes v))"
  by (induction vs) simp_all

lemma slot_frame:
  assumes "sz' \<noteq> sz \<or> c' \<noteq> c"
  shows "slot (snd (updateStock save this c sz q)) c' sz' = slot this c' sz'"
proof (cases rule: updateStock_cases [where this = this and c = c and sz = sz])
  case (new_color vs)
  then show ?thesis
    by (simp add: updateStock_new_color [OF new_color] slot_def slot_append_empty_colour)
next
  case (new_size pre v post)
  show ?thesis
  proof (cases "c' = c")
    case True
    with assms new_size show ?thesis
      by (simp add: updateStock_new_size [OF new_size] slot_def find_hit find_snoc_miss)
  next
    case False
    with new_size have "find (\<lambda>u. color u = c') (pre @ v\<lparr>sizes := x\<rparr> # post) = find (\<lambda>u. color u = c') (pre @ v # post)" for x
      by (intro find_skip) simp_all
    with new_size show ?thesis
      by (simp add: updateStock_new_size [OF new_size] slot_def)
  qed
next
  case (existing pre v post spre s spost)
  show ?thesis
  proof (cases "c' = c")
    case True
    with assms have ne: "sz' \<noteq> sz" by simp
    with existing have "find (\<lambda>t. size_sv t = sz') (spre @ s\<lparr>stock := k\<rparr> # spost) = find (\<lambda>t. size_sv t = sz') (spre @ s # spost)" for k
      by (intro find_skip) simp_all
    with True existing show ?thesis
      by (simp add: updateStock_existing [OF existing] slot_def find_hit)
  next
    case False
    with existing have "find (\<lambda>u. color u = c') (pre @ v\<lparr>sizes := x\<rparr> # post) = find (\<lambda>u. color u = c') (pre @ v # post)" for x
      by (intro find_skip) simp_all
    with existing show ?thesis
      by (simp add: updateStock_existing [OF existing] slot_def)
  qed
qed

lemma totalStock_failure:
  assumes "currentStock_of this c sz + q < 0"
  shows "totalStock (snd (updateStock save this c sz q)) = totalStock this"
proof (cases rule: updateStock_cases [where this = this and c = c and sz = sz])
  case (new_color vs)
  with assms have "q < 0"
    by (simp add: currentStock_of_def currentStock_of_new_color [OF new_color])
  with new_color show ?thesis
    by (simp add: updateStock_new_color [OF new_color] totalStock_sum all_sizes_def)
next
  case (new_size pre v post)
  with assms have "q < 0"
    by (simp add: currentStock_of_def currentStock_of_new_size [OF new_size])
  with new_size show ?thesis
    by (simp add: updateStock_new_size [OF new_size] totalStock_sum all_sizes_def)
next
  case (existing pre v post spre s spost)
  with assms have "stock s + q < 0"
    by (simp add: currentStock_of_def currentStock_of_existing [OF existing])
  with existing show ?thesis
    by (simp add: updateStock_existing [OF existing] totalStock_sum all_sizes_def)
qed

lemma updateStock_failure_existing:
  assumes "currentStock_of this c sz + q < 0" and "slot this c sz = Some s"
  shows "snd (updateStock save this c sz q) = this"
proof (cases rule: updateStock_cases [where this = this and c = c and sz = sz])
  case (new_color vs)
  with assms(2) show ?thesis
    by (simp add: currentStock_of_new_color [OF new_color])
next
  case (new_size pre v post)
  with assms(2) show ?thesis
    by (simp add: currentStock_of_new_size [OF new_size])
next
  case (existing pre v post spre s' spost)
  with assms have neg: "stock s' + q < 0"
    by (simp add: currentStock_of_def currentStock_of_existing [OF existing])
  from existing(1) have "variants this = Some (pre @ v # post)"
    by (simp add: variants_list_def split: option.splits)
  then have "this\<lparr>variants := Some (pre @ v # post)\<rparr> = this" by simp
  with neg show ?thesis
    by (simp add: updateStock_existing [OF existing])
qed

lemma slot_kept_on_failure:
  assumes "currentStock_of this c sz + q < 0" and "slot this c' sz' = Some s"
  shows "slot (snd (updateStock save this c sz q)) c' sz' = Some s"
proof (cases "sz' \<noteq> sz \<or> c' \<noteq> c")
  case True
  then show ?thesis using assms(2) by (simp add: slot_frame)
next
  case False
  with assms show ?thesis by (simp add: updateStock_failure_existing)
qed

text \<open>
  C2, as stated, fails when the addressed colour does not exist yet: the colour is pushed
  before the check, and it stays in the document, without a size, when the check throws.
\<close>

theorem updateStock_failure_mutates:
  "fst (updateStock Inr (black8 5) ''red'' (NumSize 9) (- 1))
     = Inl (Error ''Insufficient stock for color \"red\" size 9. Available: 0, Requested: -1'')
   \<and> snd (updateStock Inr (black8 5) ''red'' (NumSize 9) (- 1)) \<noteq> black8 5
   \<and> snd (updateStock Inr (black8 5) ''red'' (NumSize 9) (- 1))
     = \<lparr>variants = Some [\<lparr>color = ''black'', sizes = [\<lparr>size_sv = NumSize 8, stock = 5\<rparr>], images = Some []\<rparr>,
                         \<lparr>color = ''red'', sizes = [], images = Some []\<rparr>]\<rparr>"
  by (simp add: black8_def updateStock_def Let_def insufficient_message_def number_toString_def
      nat_toString.simps digit_char_def cast_color_def trim_def is_whitespace_def)

text \<open>
  C2, amended. The method throws exactly when the pre-delta stock of the addressed slot (0
  for a slot yet to be created) plus the quantity is negative; otherwise its promise is
  the one \<^verbatim>\<open>save\<close> returns for the document. When it throws, the message carries the
  colour, the size, the pre-delta stock and the quantity; no stock has been written: every
  slot still holds the SizeVariant it held, \<^verbatim>\<open>totalStock\<close> is what it was, and a document
  in which the addressed slot existed is left as it was.
\<close>

theorem updateStock_insufficient:
  "(currentStock_of this c sz + q < 0 \<longrightarrow>
      fst (updateStock save this c sz q)
        = Inl (Error (insufficient_message c sz (currentStock_of this c sz) q))
      \<and> (\<forall>c' sz' s. slot this c' sz' = Some s \<longrightarrow>
            slot (snd (updateStock save this c sz q)) c' sz' = Some s)
      \<and> totalStock (snd (updateStock save this c sz q)) = totalStock this
      \<and> (slot this c sz \<noteq> None \<longrightarrow> snd (updateStock save this c sz q) = this))
   \<and> (0 \<le> currentStock_of this c sz + q \<longrightarrow>
        fst (updateStock save this c sz q) = save (snd (updateStock save this c sz q)))"
proof (intro conjI impI allI)
  assume "currentStock_of this c sz + q < 0"
  then show "fst (updateStock save this c sz q)
        = Inl (Error (insufficient_message c sz (currentStock_of this c sz) q))"
    by (simp add: updateStock_outcome)
next
  fix c' sz' s
  assume "currentStock_of this c sz + q < 0" "slot this c' sz' = Some s"
  then show "slot (snd (updateStock save this c sz q)) c' sz' = Some s"
    by (rule slot_kept_on_failure)
next
  assume "currentStock_of this c sz + q < 0"
  then show "totalStock (snd (updateStock save this c sz q)) = totalStock this"
    by (rule totalStock_failure)
next
  assume "currentStock_of this c sz + q < 0" "slot this c sz \<noteq> None"
  then show "snd (updateStock save this c sz q) = this"
    by (auto simp: updateStock_failure_existing)
next
  assume "0 \<le> currentStock_of this c sz + q"
  then show "fst (updateStock save this c sz q) = save (snd (updateStock save this c sz q))"
    by (simp add: updateStock_outcome)
qed

text \<open>Scenario B, and the boundary: taking all five succeeds and leaves 0.\<close>

theorem updateStock_insufficient_witness:
  "currentStock_of (black8 5) ''black'' (NumSize 8) + (- 10) < 0
   \<and> fst (updateStock Inr (black8 5) ''black'' (NumSize 8) (- 10))
       = Inl (Error ''Insufficient stock for color \"black\" size 8. Available: 5, Requested: -10'')
   \<and> snd (updateStock Inr (black8 5) ''black'' (NumSize 8) (- 10)) = black8 5
   \<and> 0 \<le> currentStock_of (black8 5) ''black'' (NumSize 8) + (- 5)
   \<and> fst (updateStock Inr (black8 5) ''black'' (NumSize 8) (- 5)) = Inr (black8 0)"
  using updateStock_insufficient [where this = "black8 5" and c = "''black''" and sz = "NumSize 8"
      and q = "- 10" and save = Inr]
    updateStock_insufficient [where this = "black8 5" and c = "''black''" and sz = "NumSize 8"
      and q = "- 5" and save = Inr]
  by (simp add: black8_def currentStock_of_def slot_def variants_list_def insufficient_message_def
      number_toString_examples updateStock_def Let_def)

section \<open>Numbers and strings as sizes\<close>

lemma getStockBySize_frame:
  assumes "sz' \<noteq> sz"
  shows "getStockBySize (snd (updateStock save this c sz q)) sz' = getStockBySize this sz'"
proof (cases rule: updateStock_cases [where this = this and c = c and sz = sz])
  case (new_color vs)
  with assms show ?thesis
    by (simp add: updateStock_new_color [OF new_color] getStockBySize_first matched_stock_def)
next
  case (new_size pre v post)
  with assms show ?thesis
    by (simp add: updateStock_new_size [OF new_size] getStockBySize_first matched_stock_def find_snoc_miss)
next
  case (existing pre v post spre s spost)
  with assms have "find (\<lambda>t. size_sv t = sz') (spre @ s\<lparr>stock := k\<rparr> # spost) = find (\<lambda>t. size_sv t = sz') (spre @ s # spost)" for k
    by (intro find_skip) simp_all
  with existing show ?thesis
    by (simp add: updateStock_existing [OF existing] getStockBySize_first matched_stock_def)
qed

lemma getStockBySize_own:
  assumes "slot this c sz \<noteq> None" and "0 \<le> currentStock_of this c sz + q"
  shows "getStockBySize (snd (updateStock save this c sz q)) sz = getStockBySize this sz + q"
proof (cases rule: updateStock_cases [where this = this and c = c and sz = sz])
  case (new_color vs)
  with assms(1) show ?thesis
    by (simp add: currentStock_of_new_color [OF new_color])
next
  case (new_size pre v post)
  with assms(1) show ?thesis
    by (simp add: currentStock_of_new_size [OF new_size])
next
  case (existing pre v post spre s spost)
  with assms have "0 \<le> stock s + q"
    by (simp add: currentStock_of_def currentStock_of_existing [OF existing])
  moreover from existing have "find (\<lambda>t. size_sv t = sz) (spre @ s\<lparr>stock := k\<rparr> # spost) = Some (s\<lparr>stock := k\<rparr>)" for k
    by (simp add: find_hit)
  moreover from existing have "find (\<lambda>t. size_sv t = sz) (spre @ s # spost) = Some s"
    by (simp add: find_hit)
  ultimately show ?thesis using existing
    by (simp add: updateStock_existing [OF existing] getStockBySize_first matched_stock_def)
qed

text \<open>
  C9. Within one colour a numeric size and a string size, such as 8 and "8", address two
  slots: a call on one leaves the slot of the other as it was and the \<^verbatim>\<open>getStockBySize\<close>
  of the other does not move, while a delta accepted on an existing slot shows in the
  \<^verbatim>\<open>getStockBySize\<close> of its own size.
\<close>

theorem number_and_string_sizes_independent:
  "slot (snd (updateStock save this c (NumSize n) q)) c (StrSize t) = slot this c (StrSize t)
   \<and> slot (snd (updateStock save this c (StrSize t) q)) c (NumSize n) = slot this c (NumSize n)
   \<and> getStockBySize (snd (updateStock save this c (NumSize n) q)) (StrSize t)
       = getStockBySize this (StrSize t)
   \<and> getStockBySize (snd (updateStock save this c (StrSize t) q)) (NumSize n)
       = getStockBySize this (NumSize n)
   \<and> (slot this c (NumSize n) \<noteq> None \<and> 0 \<le> currentStock_of this c (NumSize n) + q \<longrightarrow>
        getStockBySize (snd (updateStock save this c (NumSize n) q)) (NumSize n)
          = getStockBySize this (NumSize n) + q)
   \<and> (slot this c (StrSize t) \<noteq> None \<and> 0 \<le> currentStock_of this c (StrSize t) + q \<longrightarrow>
        getStockBySize (snd (updateStock save this c (StrSize t) q)) (StrSize t)
          = getStockBySize this (StrSize t) + q)"
  by (simp add: slot_frame getStockBySize_frame getStockBySize_own)

theorem number_and_string_sizes_independent_witness:
  "slot (snd (updateStock Inr black_two_eights ''black'' (NumSize 8) (- 5))) ''black'' (StrSize ''8'')
     = Some \<lparr>size_sv = StrSize ''8'', stock = 4\<rparr>
   \<and> slot (snd (updateStock Inr black_two_eights ''black'' (NumSize 8) (- 5))) ''black'' (NumSize 8)
     = Some \<lparr>size_sv = NumSize 8, stock = 5\<rparr>
   \<and> getStockBySize (snd (updateStock Inr black_two_eights ''black'' (NumSize 8) (- 5))) (StrSize ''8'') = 4
   \<and> getStockBySize (snd (updateStock Inr black_two_eights ''black'' (NumSize 8) (- 5))) (NumSize 8) = 5
   \<and> getStockBySize (snd (updateStock Inr black_two_eights ''black'' (StrSize ''8'') 1)) (StrSize ''8'') = 5
   \<and> getStockBySize (snd (updateStock Inr black_two_eights ''black'' (StrSize ''8'') 1)) (NumSize 8) = 10"
  using number_and_string_sizes_independent [where this = black_two_eights and c = "''black''"
      and n = 8 and t = "''8''" and q = "- 5" and save = Inr]
    number_and_string_sizes_independent [where this = black_two_eights and c = "''black''"
      and n = 8 and t = "''8''" and q = 1 and save = Inr]
  by (simp add: black_two_eights_def updateStock_def Let_def slot_def variants_list_def
      getStockBySize_def currentStock_of_def)

section \<open>The bulk loop\<close>

lemma sizes_loop_fold:
  "list_all (\<lambda>u. u \<noteq> None) sizeUpdates \<Longrightarrow>
   sizes_loop save c sizeUpdates st
     = (None, foldl (apply_item save) st (map (size_item c) (objects sizeUpdates)))"
proof (induction sizeUpdates arbitrary: st)
  case Nil
  then show ?case by simp
next
  case (Cons entry rest)
  then obtain u where entry: "entry = Some u" by auto
  have "size_step save c (Some u) st = (None, apply_item save st (size_item c u))"
    by (simp add: size_step_def size_item_def split: JsValue.splits)
  with Cons show ?case by (simp add: entry)
qed

lemma variant_step_fold:
  assumes "case sizes_vu variant of None \<Rightarrow> True | Some us \<Rightarrow> list_all (\<lambda>u. u \<noteq> None) us"
  shows "variant_step save (Some variant) st
     = (None, foldl (apply_item save) st (variant_items variant))"
  using assms
  by (simp add: variant_step_def variant_items_def sizes_loop_fold split: JsValue.splits option.splits)

lemma variants_loop_fold:
  "entries_present entries \<Longrightarrow>
   variants_loop save entries st = (None, foldl (apply_item save) st (bulk_items entries))"
proof (induction entries arbitrary: st)
  case Nil
  then show ?case by (simp add: bulk_items_def)
next
  case (Cons entry rest)
  from Cons.prems obtain variant where entry: "entry = Some variant"
    and ok: "case sizes_vu variant of None \<Rightarrow> True | Some us \<Rightarrow> list_all (\<lambda>u. u \<noteq> None) us"
    and rest: "entries_present rest"
    by (auto simp: entries_present_def split: option.splits)
  from Cons.IH [OF rest] show ?case
    by (simp add: entry variant_step_fold [OF ok] bulk_items_def)
qed

lemma apply_item_product: "product (apply_item save st item) = item_effect save (product st) item"
  by (cases item) (simp_all split: prod.splits sum.splits)

lemma apply_item_count:
  "length (updates (apply_item save st item)) + length (errors (apply_item save st item))
     = Suc (length (updates st) + length (errors st))"
  by (cases item) (simp_all split: prod.splits sum.splits)

lemma foldl_apply_item_product:
  "product (foldl (apply_item save) st items) = foldl (item_effect save) (product st) items"
  by (induction items arbitrary: st) (simp_all add: apply_item_product)

lemma foldl_apply_item_count:
  "length (updates (foldl (apply_item save) st items)) + length (errors (foldl (apply_item save) st items))
     = length (updates st) + length (errors st) + length items"
  by (induction items arbitrary: st) (simp_all add: apply_item_count)

text \<open>
  A \<^verbatim>\<open>null\<close> entry of \<^verbatim>\<open>variants\<close> ends the loops where it stands: the entries before it
  have been worked through, those after it are not looked at, and the answer is that of the
  outer \<^verbatim>\<open>catch\<close>.
\<close>

lemma variants_loop_null_entry:
  "entries_present before \<Longrightarrow>
   variants_loop save (before @ None # after) st
     = (Some (Error (null_read_message ''color'')), foldl (apply_item save) st (bulk_items before))"
proof (induction before arbitrary: st)
  case Nil
  then show ?case by (simp add: variant_step_def bulk_items_def)
next
  case (Cons entry rest)
  from Cons.prems obtain variant where entry: "entry = Some variant"
    and ok: "case sizes_vu variant of None \<Rightarrow> True | Some us \<Rightarrow> list_all (\<lambda>u. u \<noteq> None) us"
    and rest: "entries_present rest"
    by (auto simp: entries_present_def split: option.splits)
  from Cons.IH [OF rest] show ?case
    by (simp add: entry variant_step_fold [OF ok] bulk_items_def)
qed

lemma updateBulkStock_null_entry:
  "entries_present before \<Longrightarrow>
   updateBulkStock save (Inr (Some p)) (Some (before @ None # after))
     = server_error (Error (null_read_message ''color''))"
  by (simp add: updateBulkStock_def variants_loop_null_entry)

lemma updateBulkStock_null_entry_example:
  "updateBulkStock Inr (Inr (Some (black8 10))) (Some restock_then_null)
     = \<lparr>res_status = 500, res_success = False, res_data = None,
        res_message = ''Error updating bulk stock'',
        res_errors = Some [''Cannot read properties of null (reading 'color')'']\<rparr>
   \<and> variants_loop Inr restock_then_null \<lparr>product = black8 10, updates = [], errors = []\<rparr>
     = (Some (Error ''Cannot read properties of null (reading 'color')''),
        \<lparr>product = black8 15, updates = [''black size 8: +5''], errors = []\<rparr>)"
  by (simp add: updateBulkStock_def restock_then_null_def black8_def variant_step_def size_step_def
      updateStock_def Let_def update_message_def number_toString_def nat_toString.simps
      digit_char_def server_error_def null_read_message_def)

text \<open>
  C7, as stated, fails on a request without entries: no triple succeeds, and the response
  is a success.
\<close>

theorem updateBulkStock_empty_batch:
  "updates (snd (variants_loop Inr [] \<lparr>product = black8 10, updates = [], errors = []\<rparr>)) = []
   \<and> res_success (updateBulkStock Inr (Inr (Some (black8 10))) (Some []))
   \<and> res_status (updateBulkStock Inr (Inr (Some (black8 10))) (Some [])) = 200"
  by (simp add: updateBulkStock_def)

text \<open>
  C7, amended. For a request in which no entry of \<^verbatim>\<open>variants\<close> and no entry of a \<^verbatim>\<open>sizes\<close>
  array is \<^verbatim>\<open>null\<close>: the loop is the fold of the body's entries in input order; every
  triple that passes the checks goes to \<^verbatim>\<open>updateStock\<close> on the document as the entries
  before it left it, whether those were accepted or not; every entry adds one message, to
  \<^verbatim>\<open>updates\<close> or to \<^verbatim>\<open>errors\<close>; and the response is a rejection (status 400) exactly when
  \<^verbatim>\<open>updates\<close> is empty and \<^verbatim>\<open>errors\<close> is not.
\<close>

theorem updateBulkStock_best_effort:
  "entries_present entries \<Longrightarrow>
   variants_loop save entries st = (None, foldl (apply_item save) st (bulk_items entries))
   \<and> product (snd (variants_loop save entries st))
       = foldl (item_effect save) (product st) (bulk_items entries)
   \<and> length (updates (snd (variants_loop save entries st)))
         + length (errors (snd (variants_loop save entries st)))
       = length (updates st) + length (errors st) + length (bulk_items entries)
   \<and> (\<not> res_success (updateBulkStock save (Inr (Some p)) (Some entries)) \<longleftrightarrow>
        updates (snd (variants_loop save entries \<lparr>product = p, updates = [], errors = []\<rparr>)) = []
        \<and> errors (snd (variants_loop save entries \<lparr>product = p, updates = [], errors = []\<rparr>)) \<noteq> [])
   \<and> (res_status (updateBulkStock save (Inr (Some p)) (Some entries)) = 400 \<longleftrightarrow>
        \<not> res_success (updateBulkStock save (Inr (Some p)) (Some entries)))"
  by (simp add: variants_loop_fold foldl_apply_item_product foldl_apply_item_count
      updateBulkStock_def)

text \<open>
  Scenario D on the two existing sizes of black: one failure, one success, and the success
  is kept.
\<close>

theorem updateBulkStock_best_effort_witness:
  "entries_present scenario_D
   \<and> updateBulkStock Inr (Inr (Some two_colours)) (Some scenario_D) =
     \<lparr>res_status = 200, res_success = True,
      res_data = Some \<lparr>variants = Some
        [\<lparr>color = ''black'',
          sizes = [\<lparr>size_sv = NumSize 8, stock = 10\<rparr>, \<lparr>size_sv = NumSize 9, stock = 6\<rparr>],
          images = None\<rparr>,
         \<lparr>color = ''white'',
          sizes = [\<lparr>size_sv = StrSize ''M'', stock = 2\<rparr>, \<lparr>size_sv = NumSize 8, stock = 7\<rparr>],
          images = Some []\<rparr>]\<rparr>,
      res_message = ''Stock updated for 1 color-size combination(s)'',
      res_errors = Some [''Error updating black size 8: Insufficient stock for color \"black\" size 8. Available: 10, Requested: -20'']\<rparr>
   \<and> bulk_items scenario_D = [Triple ''black'' 8 (- 20), Triple ''black'' 9 5]"
  using updateBulkStock_best_effort [where save = Inr and p = two_colours and entries = scenario_D
      and st = "\<lparr>product = two_colours, updates = [], errors = []\<rparr>"]
  by (simp add: updateBulkStock_def scenario_D_def two_colours_def variant_step_def size_step_def
      updateStock_def Let_def update_message_def update_error_message_def insufficient_message_def
      number_toString_def nat_toString.simps digit_char_def
      bulk_items_def variant_items_def size_item_def entries_present_def)

text \<open>
  C8. A triple whose size is a string is filed as malformed by the bulk loop and no update
  is attempted, while \<^verbatim>\<open>updateStock\<close> itself, which the single-update endpoint calls with
  the same colour, size and quantity, takes the string size and creates its slot.
\<close>

theorem updateBulkStock_string_size:
  "updateBulkStock Inr (Inr (Some (black8 10)))
     (Some [Some \<lparr>color_vu = JsString ''black'',
                  sizes_vu = Some [Some \<lparr>size_su = JsString ''M'', quantity_su = JsNumber 5\<rparr>]\<rparr>])
     = \<lparr>res_status = 400, res_success = False, res_data = None,
        res_message = ''Failed to update stock'',
        res_errors = Some [''Invalid size for color \"black\": must be a number'']\<rparr>
   \<and> updateStock Inr (black8 10) ''black'' (StrSize ''M'') 5
     = (Inr \<lparr>variants = Some [\<lparr>color = ''black'',
                sizes = [\<lparr>size_sv = NumSize 8, stock = 10\<rparr>, \<lparr>size_sv = StrSize ''M'', stock = 0\<rparr>],
                images = Some []\<rparr>]\<rparr>,
        \<lparr>variants = Some [\<lparr>color = ''black'',
                sizes = [\<lparr>size_sv = NumSize 8, stock = 10\<rparr>, \<lparr>size_sv = StrSize ''M'', stock = 0\<rparr>],
                images = Some []\<rparr>]\<rparr>)"
  by (simp add: updateBulkStock_def black8_def variant_step_def size_step_def
      invalid_size_message_def updateStock_def Let_def)

end
